theory Spec2Isabelle
  imports Main
begin

section \<open>The ProviderList component (src/app/components/Service/ProviderList.tsx)\<close>

text \<open>
  The component is a React function component. Its five \<open>useState\<close> cells are the
  fields of the record \<open>component\<close>; every handler is a function from the state in which
  its state setters run to the new state and the list of effects it performed, in program
  order. The Supabase client, the \<open>onBookingMade\<close> prop and the runtime's \<open>Date\<close>
  formatting are collaborators outside the file: they are the fields of the record \<open>env\<close>,
  so every theorem holds for whatever they answer.
\<close>

subsection \<open>Rows and view models\<close>

text \<open>
  \<open>BookingStatus\<close> is an enum of the generated database types; at run time its values are
  strings, and \<open>handleCancel\<close> writes the string \<open>cancelled\<close>.
\<close>

type_synonym BookingStatus = string

text \<open>The nested relations selected with a booking: \<open>services ( title, users ( name ) )\<close>.\<close>

record users_rel =
  user_name :: "string option"

record services_rel =
  rel_title :: "string option"
  rel_users :: "users_rel option"

text \<open>
  \<open>BookingWithDetailsServiceAndUser\<close>: a row of \<open>bookings\<close> with its nested relations.
  Field \<open>f\<close> of the source is \<open>row_f\<close> here.
\<close>

record BookingWithDetailsServiceAndUser =
  row_id :: string
  row_service_id :: string
  row_client_id :: string
  row_booking_date :: string
  row_special_requests :: "string option"
  row_status :: BookingStatus
  row_updated_at :: string
  row_services :: "services_rel option"

text \<open>
  \<open>BookingRequest\<close>, the view model, with the fields of the object literal that
  \<open>fetchBookingRequests\<close> builds. The source's field \<open>id\<close> is \<open>req_id\<close>.
\<close>

record BookingRequest =
  req_id :: string
  booking_date :: string
  time :: string
  special_requests :: string
  status :: BookingStatus
  serviceTitle :: string
  practitionerName :: string

text \<open>\<open>ServiceWithProvider\<close>: a row of the catalog; the component only stores and renders it.\<close>

record ServiceWithProvider =
  svc_id :: string
  svc_title :: string
  svc_user_id :: string
  svc_users :: "users_rel option"

record BookingFormData =
  form_booking_date :: string
  form_special_requests :: string

subsection \<open>Queries, responses and effects\<close>

datatype projection = Star | Col string | Rel string "projection list"

datatype filter_clause = Eq string string | In string "string list"

text \<open>
  A select built with the query builder. \<open>q_order = Some (c, asc)\<close> is
  \<open>.order(c, { ascending: asc })\<close>. The builder only describes the request; the request is
  sent when the builder is awaited, which is the effect \<open>Executed\<close> below.
\<close>

record query =
  q_table :: string
  q_select :: "projection list"
  q_order :: "(string \<times> bool) option"
  q_limit :: "nat option"
  q_filters :: "filter_clause list"

datatype db_op =
    Select query
  | Insert string "(string \<times> string) list list"
  | Update string "(string \<times> string) list" "filter_clause list"

datatype PostgrestError = PostgrestError string

text \<open>The \<open>{ data, error }\<close> object every awaited request resolves to; \<open>None\<close> is \<open>null\<close>.\<close>

record 'a response =
  data :: "'a option"
  error :: "PostgrestError option"

datatype service_id_row = ServiceIdRow (sid: string)

datatype auth_user = AuthUser (user_id: string)

datatype session = Session (user: "auth_user option")

record session_response =
  gs_session :: "session option"
  gs_error :: "PostgrestError option"

text \<open>
  Console output: the channel and the arguments, a template literal being the list of its
  pieces. An object argument is \<open>LObj\<close>: what is printed of it plays no part below.
\<close>

datatype level = Log | Warn | Err

datatype log_arg = LStr string | LNum nat | LObj

datatype effect =
    Console level "log_arg list"
  | Alert string string
  | Executed db_op
  | GetSession
  | OnBookingMade

record env =
  getSession :: session_response
  select_services :: "query \<Rightarrow> service_id_row list response"
  select_bookings :: "query \<Rightarrow> BookingWithDetailsServiceAndUser list response"
  insert_booking :: "db_op \<Rightarrow> BookingWithDetailsServiceAndUser response"
  update_booking :: "db_op \<Rightarrow> PostgrestError option"
  onBookingMade :: bool
  toLocaleDateString :: "string \<Rightarrow> string"
  toLocaleTimeString :: "string \<Rightarrow> string"

subsection \<open>Component state\<close>

record component =
  services :: "ServiceWithProvider list"
  isLoadingServices :: bool
  selectedServiceId :: "string option"
  bookingRequests :: "BookingRequest list"
  clientId :: "string option"

datatype role = client | practitioner | unknown_role

text \<open>The placeholder of line 42: \<open>const userRole = 'client'\<close>.\<close>

definition userRole :: role where
  "userRole = client"

text \<open>The initial values of the \<open>useState\<close> calls (lines 36 to 40).\<close>

definition initial_state :: component where
  "initial_state =
     \<lparr>services = [], isLoadingServices = True, selectedServiceId = None,
      bookingRequests = [], clientId = None\<rparr>"

text \<open>
  JavaScript's \<open>!v\<close> for \<open>v : string | null\<close>: true for \<open>null\<close> and for the empty string.
\<close>

fun falsy :: "string option \<Rightarrow> bool" where
  "falsy None = True"
| "falsy (Some s) = (s = [])"

subsection \<open>Mutation handlers\<close>

definition set_status_op :: "string \<Rightarrow> BookingStatus \<Rightarrow> db_op" where
  "set_status_op bid s = Update ''bookings'' [(''status'', s)] [Eq ''id'' bid]"

text \<open>The updater both handlers pass to \<open>setBookingRequests\<close> (lines 95-99, 120-124).\<close>

definition patch_status :: "string \<Rightarrow> BookingStatus \<Rightarrow> BookingRequest list \<Rightarrow> BookingRequest list" where
  "patch_status bid s prevRequests =
     map (\<lambda>req. if req_id req = bid then req\<lparr>status := s\<rparr> else req) prevRequests"

definition handleRespond :: "env \<Rightarrow> string \<Rightarrow> BookingStatus \<Rightarrow> component \<Rightarrow> component \<times> effect list" where
  "handleRespond e bid s st =
     (case update_booking e (set_status_op bid s) of
        Some err \<Rightarrow>
          (st,
           [Console Log [LStr ''Provider responded to request '', LStr bid, LStr '': '', LStr s],
            Executed (set_status_op bid s),
            Console Err [LStr ''Error updating booking status:'', LObj]])
      | None \<Rightarrow>
          (st\<lparr>bookingRequests := patch_status bid s (bookingRequests st)\<rparr>,
           [Console Log [LStr ''Provider responded to request '', LStr bid, LStr '': '', LStr s],
            Executed (set_status_op bid s),
            Console Log [LStr ''Notify client: Your booking request (ID: '', LStr bid,
                         LStr '') was '', LStr s, LStr ''.'']]))"

definition handleCancel :: "env \<Rightarrow> string \<Rightarrow> component \<Rightarrow> component \<times> effect list" where
  "handleCancel e bid st =
     (case update_booking e (Update ''bookings'' [(''status'', ''cancelled'')] [Eq ''id'' bid]) of
        Some err \<Rightarrow>
          (st,
           [Console Log [LStr ''Client cancelling booking request '', LStr bid],
            Executed (Update ''bookings'' [(''status'', ''cancelled'')] [Eq ''id'' bid]),
            Console Err [LStr ''Error cancelling booking:'', LObj]])
      | None \<Rightarrow>
          (st\<lparr>bookingRequests :=
                map (\<lambda>req. if req_id req = bid then req\<lparr>status := ''cancelled''\<rparr> else req)
                  (bookingRequests st)\<rparr>,
           [Console Log [LStr ''Client cancelling booking request '', LStr bid],
            Executed (Update ''bookings'' [(''status'', ''cancelled'')] [Eq ''id'' bid]),
            Console Log [LStr ''Booking request (ID: '', LStr bid, LStr '') cancelled.'']]))"

definition booking_insert :: "string \<Rightarrow> string \<Rightarrow> BookingFormData \<Rightarrow> db_op" where
  "booking_insert serviceId cid request =
     Insert ''bookings''
       [[(''service_id'', serviceId),
         (''client_id'', cid),
         (''booking_date'', form_booking_date request),
         (''special_requests'', form_special_requests request),
         (''status'', ''pending'')]]"

text \<open>
  \<open>handleBookingRequest\<close> (lines 44-79). The insert is \<open>.insert([row]).select().single()\<close>;
  a failure of it is the \<open>error\<close> of the response, not an exception.
\<close>

definition handleBookingRequest :: "env \<Rightarrow> BookingFormData \<Rightarrow> string \<Rightarrow> component \<Rightarrow> component \<times> effect list" where
  "handleBookingRequest e request serviceId st =
     (case clientId st of
        None \<Rightarrow> (st, [Alert ''Error'' ''You must be logged in to make a booking request.''])
      | Some cid \<Rightarrow>
          if falsy (Some cid)
          then (st, [Alert ''Error'' ''You must be logged in to make a booking request.''])
          else
            (st\<lparr>selectedServiceId := None\<rparr>,
             [Console Log [LStr ''ProviderList: Attempting to insert booking:'', LObj],
              Executed (booking_insert serviceId cid request)] @
             (case error (insert_booking e (booking_insert serviceId cid request)) of
                Some err \<Rightarrow> [Console Err [LStr ''Error storing booking request:'', LObj]]
              | None \<Rightarrow>
                  Console Log [LStr ''Booking request stored:'', LObj] #
                  (if onBookingMade e
                   then [Console Log [LStr ''ProviderList: Calling onBookingMade callback.''],
                         OnBookingMade]
                   else []))))"

subsection \<open>The role-scoped booking fetch\<close>

text \<open>
  The builder of lines 137-147: all columns of \<open>bookings\<close> with the nested service title and
  provider name, ordered by \<open>updated_at\<close> descending, limited to 3 rows, no filter yet.
\<close>

definition bookings_query :: query where
  "bookings_query =
     \<lparr>q_table = ''bookings'',
      q_select = [Star, Rel ''services'' [Col ''title'', Rel ''users'' [Col ''name'']]],
      q_order = Some (''updated_at'', False),
      q_limit = Some 3,
      q_filters = []\<rparr>"

text \<open>Lines 153-156: \<open>from('services').select('id').eq('user_id', currentUserId)\<close>.\<close>

definition owned_services_query :: "string \<Rightarrow> query" where
  "owned_services_query currentUserId =
     \<lparr>q_table = ''services'',
      q_select = [Col ''id''],
      q_order = None,
      q_limit = None,
      q_filters = [Eq ''user_id'' currentUserId]\<rparr>"

text \<open>The body of the \<open>map\<close> of lines 205-217, one raw row to one view model.\<close>

definition formatRequest :: "env \<Rightarrow> BookingWithDetailsServiceAndUser \<Rightarrow> BookingRequest" where
  "formatRequest e req =
     \<lparr>req_id = row_id req,
      booking_date = toLocaleDateString e (row_booking_date req),
      time = toLocaleTimeString e (row_booking_date req),
      special_requests = (case row_special_requests req of None \<Rightarrow> [] | Some t \<Rightarrow> t),
      status = row_status req,
      serviceTitle =
        (case Option.bind (row_services req) rel_title of
           None \<Rightarrow> ''Unknown Service'' | Some t \<Rightarrow> t),
      practitionerName =
        (case Option.bind (Option.bind (row_services req) rel_users) user_name of
           None \<Rightarrow> ''Unknown Practitioner'' | Some n \<Rightarrow> n)\<rparr>"

text \<open>\<open>(data || []).map(...)\<close>: a \<open>null\<close> data is the empty list.\<close>

definition formattedRequests :: "env \<Rightarrow> BookingWithDetailsServiceAndUser list option \<Rightarrow> BookingRequest list" where
  "formattedRequests e d =
     map (formatRequest e) (case d of None \<Rightarrow> [] | Some rows \<Rightarrow> rows)"

text \<open>Lines 180-220: the built query is awaited and its answer stored.\<close>

definition run_query :: "env \<Rightarrow> query \<Rightarrow> component \<Rightarrow> component \<times> effect list" where
  "run_query e q st =
     (case error (select_bookings e q) of
        Some err \<Rightarrow>
          (st\<lparr>bookingRequests := []\<rparr>,
           [Executed (Select q),
            Console Log [LStr ''[fetchBookingRequests] Raw data from Supabase:'', LObj],
            Console Log [LStr ''[fetchBookingRequests] Error from Supabase:'', LObj],
            Console Err [LStr ''Error fetching booking requests:'', LObj]])
      | None \<Rightarrow>
          (st\<lparr>bookingRequests := formattedRequests e (data (select_bookings e q))\<rparr>,
           [Executed (Select q),
            Console Log [LStr ''[fetchBookingRequests] Raw data from Supabase:'', LObj],
            Console Log [LStr ''[fetchBookingRequests] Error from Supabase:'', LObj],
            Console Log [LStr ''[fetchBookingRequests] Successfully fetched '',
                         LNum (case data (select_bookings e q) of None \<Rightarrow> 0
                               | Some rows \<Rightarrow> length rows),
                         LStr '' raw bookings.''],
            Console Log [LStr ''[fetchBookingRequests] Set '',
                         LNum (length (formattedRequests e (data (select_bookings e q)))),
                         LStr '' formatted requests to state.'']]))"

text \<open>
  \<open>fetchBookingRequests\<close> (lines 129-221). The role is the component-level \<open>userRole\<close>,
  taken as a parameter so that each of the three branches the function has can be stated.
\<close>

definition fetchBookingRequests :: "role \<Rightarrow> env \<Rightarrow> string option \<Rightarrow> component \<Rightarrow> component \<times> effect list" where
  "fetchBookingRequests r e currentUserId st =
     (case currentUserId of
        None \<Rightarrow>
          (st\<lparr>bookingRequests := []\<rparr>,
           [Console Log [LStr ''No user ID available, skipping booking fetch.'']])
      | Some uid \<Rightarrow>
          if falsy (Some uid)
          then (st\<lparr>bookingRequests := []\<rparr>,
                [Console Log [LStr ''No user ID available, skipping booking fetch.'']])
          else
            (case r of
               client \<Rightarrow>
                 run_query e (bookings_query\<lparr>q_filters := [Eq ''client_id'' uid]\<rparr>) st
             | practitioner \<Rightarrow>
                 (case error (select_services e (owned_services_query uid)) of
                    Some serviceError \<Rightarrow>
                      (st\<lparr>bookingRequests := []\<rparr>,
                       [Executed (Select (owned_services_query uid)),
                        Console Err [LStr ''Error fetching practitioner services:'', LObj]])
                  | None \<Rightarrow>
                      (case (case data (select_services e (owned_services_query uid)) of
                               None \<Rightarrow> [] | Some rows \<Rightarrow> map sid rows) of
                         [] \<Rightarrow>
                           (st\<lparr>bookingRequests := []\<rparr>,
                            [Executed (Select (owned_services_query uid))])
                       | s # ss \<Rightarrow>
                           (fst (run_query e
                                   (bookings_query\<lparr>q_filters := [In ''service_id'' (s # ss)]\<rparr>) st),
                            Executed (Select (owned_services_query uid)) #
                            snd (run_query e
                                   (bookings_query\<lparr>q_filters := [In ''service_id'' (s # ss)]\<rparr>) st))))
             | unknown_role \<Rightarrow>
                 (st\<lparr>bookingRequests := []\<rparr>,
                  [Console Warn [LStr ''User role not determined, cannot fetch specific bookings.'']])))"

subsection \<open>Mount: session, realtime subscription\<close>

text \<open>
  \<open>fetchCurrentUser\<close> (lines 226-241). \<open>setClientId\<close> runs before the booking fetch, which
  is given \<open>session.user.id\<close> itself.
\<close>

definition fetchCurrentUser :: "role \<Rightarrow> env \<Rightarrow> component \<Rightarrow> component \<times> effect list" where
  "fetchCurrentUser r e st =
     (case gs_error (getSession e) of
        Some err \<Rightarrow>
          (st,
           [GetSession,
            Console Err [LStr ''Error fetching session:'', LObj],
            Alert ''Authentication Error'' ''Could not retrieve user session.''])
      | None \<Rightarrow>
          (case Option.bind (gs_session (getSession e)) user of
             Some u \<Rightarrow>
               (fst (fetchBookingRequests r e (Some (user_id u)) (st\<lparr>clientId := Some (user_id u)\<rparr>)),
                [GetSession, Console Log [LStr ''User session found, ID:'', LStr (user_id u)]] @
                snd (fetchBookingRequests r e (Some (user_id u)) (st\<lparr>clientId := Some (user_id u)\<rparr>)))
           | None \<Rightarrow>
               (st\<lparr>bookingRequests := []\<rparr>,
                [GetSession, Console Log [LStr ''No active user session found.'']])))"

text \<open>
  The realtime subscription (lines 270-281). The callback passed to \<open>.on\<close> is a closure
  created inside the effect of \<open>useEffect(..., [])\<close>; the \<open>clientId\<close> it mentions is the
  constant of the render in which the effect was created. \<open>bookingsChannel\<close> records that
  value; \<open>subscribe st\<close> is the channel an effect created in a render with state \<open>st\<close> opens.
\<close>

record bookingsChannel =
  closure_clientId :: "string option"

definition subscribe :: "component \<Rightarrow> bookingsChannel" where
  "subscribe st = \<lparr>closure_clientId = clientId st\<rparr>"

text \<open>
  The dependency list is empty, so React runs the effect once, after the first render,
  whose state is the initial one; later renders create no new effect.
\<close>

definition mounted_channel :: bookingsChannel where
  "mounted_channel = subscribe initial_state"

text \<open>The callback of lines 274-279, run for every change event of \<open>bookings\<close>.\<close>

definition on_postgres_changes :: "role \<Rightarrow> env \<Rightarrow> bookingsChannel \<Rightarrow> component \<Rightarrow> component \<times> effect list" where
  "on_postgres_changes r e ch st =
     (fst (fetchBookingRequests r e (closure_clientId ch) st),
      Console Log [LStr ''Bookings change received!'', LObj] #
      snd (fetchBookingRequests r e (closure_clientId ch) st))"

subsection \<open>Reading a trace\<close>

fun db_ops :: "effect list \<Rightarrow> db_op list" where
  "db_ops [] = []"
| "db_ops (Executed op # es) = op # db_ops es"
| "db_ops (_ # es) = db_ops es"

fun on_table :: "string \<Rightarrow> db_op \<Rightarrow> bool" where
  "on_table t (Select q) = (q_table q = t)"
| "on_table t (Insert t' rows) = (t' = t)"
| "on_table t (Update t' vals fs) = (t' = t)"

fun is_console :: "effect \<Rightarrow> bool" where
  "is_console (Console l args) = True"
| "is_console _ = False"

subsection \<open>The update-status operation specialised to one status\<close>

text \<open>
  The specification describes cancelling as the update-status operation with the target
  status fixed to \<open>cancelled\<close>. \<open>cancel_spec\<close> is that description; \<open>handleCancel\<close> above
  is the source's own function.
\<close>

definition cancel_spec :: "env \<Rightarrow> string \<Rightarrow> component \<Rightarrow> component \<times> effect list" where
  "cancel_spec e bid st = handleRespond e bid ''cancelled'' st"

text \<open>
  Two runs are compared up to the texts they print: a console effect keeps its place in
  the trace and its channel and loses its arguments (the two handlers print different
  texts); every other effect, and the state, is kept as it is.
\<close>

fun erase_text :: "effect \<Rightarrow> effect" where
  "erase_text (Console l args) = Console l []"
| "erase_text x = x"

definition outcome :: "component \<times> effect list \<Rightarrow> component \<times> effect list" where
  "outcome res = (fst res, map erase_text (snd res))"

subsection \<open>Concrete collaborators and states\<close>

definition example_row :: BookingWithDetailsServiceAndUser where
  "example_row =
     \<lparr>row_id = ''b1'', row_service_id = ''s1'', row_client_id = ''u1'',
      row_booking_date = ''2024-06-01T10:00:00Z'', row_special_requests = None,
      row_status = ''pending'', row_updated_at = ''2024-05-30T09:00:00Z'',
      row_services = None\<rparr>"

definition detailed_row :: BookingWithDetailsServiceAndUser where
  "detailed_row =
     \<lparr>row_id = ''b2'', row_service_id = ''s1'', row_client_id = ''u1'',
      row_booking_date = ''2024-06-02T15:30:00Z'', row_special_requests = Some ''first visit'',
      row_status = ''pending'', row_updated_at = ''2024-05-29T09:00:00Z'',
      row_services = Some \<lparr>rel_title = Some ''Massage'', rel_users = None\<rparr>\<rparr>"

text \<open>
  A backend in which every request succeeds: one signed-in user \<open>u1\<close> who owns no service
  and has one booking. Dates are ISO strings; the two formatters cut the date and the
  \<open>hh:mm\<close> part out of them.
\<close>

definition example_env :: env where
  "example_env =
     \<lparr>getSession = \<lparr>gs_session = Some (Session (Some (AuthUser ''u1''))), gs_error = None\<rparr>,
      select_services = (\<lambda>q. \<lparr>data = Some [], error = None\<rparr>),
      select_bookings = (\<lambda>q. \<lparr>data = Some [example_row], error = None\<rparr>),
      insert_booking = (\<lambda>op. \<lparr>data = Some example_row, error = None\<rparr>),
      update_booking = (\<lambda>op. None),
      onBookingMade = True,
      toLocaleDateString = take 10,
      toLocaleTimeString = (\<lambda>s. take 5 (drop 11 s))\<rparr>"

text \<open>The same backend when every request fails.\<close>

definition failing_env :: env where
  "failing_env =
     example_env
       \<lparr>select_services := (\<lambda>q. \<lparr>data = None, error = Some (PostgrestError ''timeout'')\<rparr>),
        select_bookings := (\<lambda>q. \<lparr>data = None, error = Some (PostgrestError ''timeout'')\<rparr>),
        insert_booking := (\<lambda>op. \<lparr>data = None, error = Some (PostgrestError ''timeout'')\<rparr>),
        update_booking := (\<lambda>op. Some (PostgrestError ''timeout''))\<rparr>"

definition example_request :: BookingRequest where
  "example_request =
     \<lparr>req_id = ''b1'', booking_date = ''2024-06-01'', time = ''10:00'',
      special_requests = [], status = ''pending'',
      serviceTitle = ''Massage'', practitionerName = ''Alice''\<rparr>"

definition other_request :: BookingRequest where
  "other_request =
     \<lparr>req_id = ''b2'', booking_date = ''2024-06-02'', time = ''15:30'',
      special_requests = ''first visit'', status = ''pending'',
      serviceTitle = ''Massage'', practitionerName = ''Alice''\<rparr>"

definition example_form :: BookingFormData where
  "example_form = \<lparr>form_booking_date = ''2024-06-01'', form_special_requests = ''first visit''\<rparr>"

text \<open>A signed-in component that shows two bookings and has the form of service \<open>s1\<close> open.\<close>

definition example_state :: component where
  "example_state =
     \<lparr>services = [], isLoadingServices = False, selectedServiceId = Some ''s1'',
      bookingRequests = [example_request, other_request], clientId = Some ''u1''\<rparr>"

section \<open>Properties\<close>

subsection \<open>Auxiliary facts\<close>

lemma db_ops_append: "db_ops (xs @ ys) = db_ops xs @ db_ops ys"
  by (induction xs rule: db_ops.induct) simp_all

lemma run_query_ops: "db_ops (snd (run_query e q st)) = [Select q]"
  by (simp add: run_query_def split: option.split)

lemma run_query_mem: "Executed op \<in> set (snd (run_query e q st)) \<longleftrightarrow> op = Select q"
  by (simp add: run_query_def split: option.split)

lemma run_query_failed:
  assumes "error (select_bookings e q) \<noteq> None"
  shows "fst (run_query e q st) = st\<lparr>bookingRequests := []\<rparr>"
    and "Console Err [LStr ''Error fetching booking requests:'', LObj] \<in> set (snd (run_query e q st))"
  using assms by (auto simp add: run_query_def)

lemma run_query_success:
  assumes "error (select_bookings e q) = None"
  shows "fst (run_query e q st) =
           st\<lparr>bookingRequests := formattedRequests e (data (select_bookings e q))\<rparr>"
  using assms by (simp add: run_query_def)

lemma services_query_table: "q_table (owned_services_query uid) = ''services''"
  by (simp add: owned_services_query_def)

text \<open>
  Whatever the channel's closure holds is what the fetch is given: the callback never reads
  the component's current \<open>clientId\<close>. For the channel opened at mount it is \<open>null\<close>.
\<close>

lemma mounted_channel_closure: "closure_clientId mounted_channel = None"
  by (simp add: mounted_channel_def subscribe_def initial_state_def)

lemma on_postgres_changes_mounted:
  "on_postgres_changes r e mounted_channel st =
     (st\<lparr>bookingRequests := []\<rparr>,
      [Console Log [LStr ''Bookings change received!'', LObj],
       Console Log [LStr ''No user ID available, skipping booking fetch.'']])"
  by (simp add: on_postgres_changes_def mounted_channel_closure fetchBookingRequests_def)

text \<open>
  A run of the fetch that executes a query \<open>q\<close> on \<open>bookings\<close> is the run of that query,
  after at most the practitioner's query on \<open>services\<close>.
\<close>

lemma fetch_shape:
  assumes "Executed (Select q) \<in> set (snd (fetchBookingRequests r e currentUserId st))"
    and "q_table q = ''bookings''"
  shows "fst (fetchBookingRequests r e currentUserId st) = fst (run_query e q st) \<and>
         (\<exists>pre. snd (fetchBookingRequests r e currentUserId st) = pre @ snd (run_query e q st) \<and>
                filter (on_table ''bookings'') (db_ops pre) = [])"
proof (cases currentUserId)
  case None
  with assms show ?thesis by (simp add: fetchBookingRequests_def)
next
  case (Some uid)
  note cu = this
  show ?thesis
  proof (cases "uid = []")
    case True
    with cu assms show ?thesis by (simp add: fetchBookingRequests_def)
  next
    case False
    note ne = this
    show ?thesis
    proof (cases r)
      case client
      with cu ne assms(1) have "q = bookings_query\<lparr>q_filters := [Eq ''client_id'' uid]\<rparr>"
        by (simp add: fetchBookingRequests_def run_query_mem)
      with client cu ne show ?thesis
        by (simp add: fetchBookingRequests_def)
    next
      case practitioner
      note pr = this
      show ?thesis
      proof (cases "error (select_services e (owned_services_query uid))")
        case (Some err)
        with pr cu ne assms show ?thesis
          by (auto simp add: fetchBookingRequests_def services_query_table)
      next
        case None
        note ok = this
        show ?thesis
        proof (cases "case data (select_services e (owned_services_query uid)) of
                        None \<Rightarrow> [] | Some rows \<Rightarrow> map sid rows")
          case Nil
          with ok pr cu ne assms show ?thesis
            by (auto simp add: fetchBookingRequests_def services_query_table)
        next
          case (Cons s ss)
          with ok pr cu ne assms
          have "q = bookings_query\<lparr>q_filters := [In ''service_id'' (s # ss)]\<rparr>"
            by (auto simp add: fetchBookingRequests_def services_query_table run_query_mem)
          with Cons ok pr cu ne show ?thesis
            by (simp add: fetchBookingRequests_def services_query_table)
        qed
      qed
    next
      case unknown_role
      with cu ne assms show ?thesis by (simp add: fetchBookingRequests_def)
    qed
  qed
qed

subsection \<open>The change listener\<close>

text \<open>
  Claim C1 says that on every change event the listener re-runs the role-scoped fetch with
  the identifier the session reader resolved. The run below is a mount with a signed-in
  user \<open>u1\<close> followed by one change event: after the session is read the component holds
  \<open>u1\<close> and shows the user's booking; the change event then executes no request at all and
  leaves the list empty, because the callback's \<open>clientId\<close> is the \<open>null\<close> of the first
  render.
\<close>

theorem change_event_after_login_clears_bookings:
  "clientId (fst (fetchCurrentUser userRole example_env initial_state)) = Some ''u1'' \<and>
   bookingRequests (fst (fetchCurrentUser userRole example_env initial_state)) =
     [formatRequest example_env example_row] \<and>
   bookingRequests
     (fst (on_postgres_changes userRole example_env mounted_channel
            (fst (fetchCurrentUser userRole example_env initial_state)))) = [] \<and>
   db_ops
     (snd (on_postgres_changes userRole example_env mounted_channel
            (fst (fetchCurrentUser userRole example_env initial_state)))) = []"
  by (simp add: on_postgres_changes_mounted)
     (simp add: fetchCurrentUser_def fetchBookingRequests_def userRole_def example_env_def
        initial_state_def run_query_def formattedRequests_def)

subsection \<open>Creating a booking\<close>

text \<open>
  Claim C2: when the create-booking handler runs while the user identifier is \<open>null\<close>, it
  performs no insert on \<open>bookings\<close> (it performs no request and changes no state) and shows
  the alert.
\<close>

theorem handleBookingRequest_without_user:
  assumes "clientId st = None"
  shows "handleBookingRequest e request serviceId st =
           (st, [Alert ''Error'' ''You must be logged in to make a booking request.'']) \<and>
         db_ops (snd (handleBookingRequest e request serviceId st)) = []"
  using assms by (simp add: handleBookingRequest_def)

theorem handleBookingRequest_without_user_witness:
  "clientId initial_state = None \<and>
   handleBookingRequest example_env example_form ''s1'' initial_state =
     (initial_state, [Alert ''Error'' ''You must be logged in to make a booking request.'']) \<and>
   db_ops (snd (handleBookingRequest example_env example_form ''s1'' initial_state)) = []"
  using handleBookingRequest_without_user [of initial_state example_env example_form "''s1''"]
  by (simp add: initial_state_def)

text \<open>
  Claim C9 says that with any non-null identifier the handler clears the selected service.
  The guard of the handler is \<open>!clientId\<close>, which also holds for the empty string: with
  the identifier \<open>""\<close> the handler alerts and returns, and the form of \<open>s1\<close> stays open.
\<close>

theorem handleBookingRequest_empty_identifier_keeps_form_open:
  "clientId (example_state\<lparr>clientId := Some []\<rparr>) = Some [] \<and>
   selectedServiceId (example_state\<lparr>clientId := Some []\<rparr>) = Some ''s1'' \<and>
   selectedServiceId
     (fst (handleBookingRequest example_env example_form ''s1''
            (example_state\<lparr>clientId := Some []\<rparr>))) = Some ''s1'' \<and>
   db_ops
     (snd (handleBookingRequest example_env example_form ''s1''
            (example_state\<lparr>clientId := Some []\<rparr>))) = []"
  by (simp add: handleBookingRequest_def example_state_def)

text \<open>
  Claim C9, amended: with a non-null and non-empty identifier the handler executes exactly
  the insert and sets the selected service to \<open>null\<close>, whatever the insert answers; nothing
  else of the state changes.
\<close>

theorem handleBookingRequest_closes_form:
  assumes "clientId st = Some cid" and "cid \<noteq> []"
  shows "fst (handleBookingRequest e request serviceId st) = st\<lparr>selectedServiceId := None\<rparr> \<and>
         selectedServiceId (fst (handleBookingRequest e request serviceId st)) = None \<and>
         db_ops (snd (handleBookingRequest e request serviceId st)) =
           [booking_insert serviceId cid request]"
  using assms by (simp add: handleBookingRequest_def split: option.splits)

theorem handleBookingRequest_closes_form_witness:
  "clientId example_state = Some ''u1'' \<and>
   error (insert_booking example_env (booking_insert ''s1'' ''u1'' example_form)) = None \<and>
   selectedServiceId (fst (handleBookingRequest example_env example_form ''s1'' example_state)) = None \<and>
   error (insert_booking failing_env (booking_insert ''s1'' ''u1'' example_form)) =
     Some (PostgrestError ''timeout'') \<and>
   selectedServiceId (fst (handleBookingRequest failing_env example_form ''s1'' example_state)) = None \<and>
   db_ops (snd (handleBookingRequest failing_env example_form ''s1'' example_state)) =
     [Insert ''bookings''
        [[(''service_id'', ''s1''), (''client_id'', ''u1''), (''booking_date'', ''2024-06-01''),
          (''special_requests'', ''first visit''), (''status'', ''pending'')]]]"
  using handleBookingRequest_closes_form [of example_state "''u1''" example_env example_form "''s1''"]
    handleBookingRequest_closes_form [of example_state "''u1''" failing_env example_form "''s1''"]
  by (simp add: example_state_def example_env_def failing_env_def booking_insert_def
      example_form_def)

subsection \<open>The role-scoped fetch\<close>

text \<open>
  Claim C3: a booking fetch with role client and a known user identifier executes one
  request, the select on \<open>bookings\<close> of all columns with the nested service title and
  provider name, ordered by \<open>updated_at\<close> descending, limited to 3 rows, whose only filter
  is equality of \<open>client_id\<close> with the identifier; no request on \<open>services\<close> is made.
  (The function treats the empty string as no identifier and then executes nothing.)
\<close>

theorem client_fetch_query:
  "db_ops (snd (fetchBookingRequests client e (Some uid) st)) =
     (if uid = [] then []
      else [Select
              \<lparr>q_table = ''bookings'',
               q_select = [Star, Rel ''services'' [Col ''title'', Rel ''users'' [Col ''name'']]],
               q_order = Some (''updated_at'', False),
               q_limit = Some 3,
               q_filters = [Eq ''client_id'' uid]\<rparr>])"
  by (simp add: fetchBookingRequests_def run_query_ops bookings_query_def)

text \<open>
  Claim C4: for role practitioner, when the select of the owned services fails, or succeeds
  with no service identifier, the fetch stores the empty list and executes no request on
  \<open>bookings\<close>: the only request is the one on \<open>services\<close>.
\<close>

theorem practitioner_without_services:
  assumes "error (select_services e (owned_services_query uid)) \<noteq> None \<or>
           (case data (select_services e (owned_services_query uid)) of
              None \<Rightarrow> [] | Some rows \<Rightarrow> map sid rows) = []"
  shows "fst (fetchBookingRequests practitioner e (Some uid) st) = st\<lparr>bookingRequests := []\<rparr> \<and>
         bookingRequests (fst (fetchBookingRequests practitioner e (Some uid) st)) = [] \<and>
         filter (on_table ''bookings'')
           (db_ops (snd (fetchBookingRequests practitioner e (Some uid) st))) = [] \<and>
         db_ops (snd (fetchBookingRequests practitioner e (Some uid) st)) =
           (if uid = [] then [] else [Select (owned_services_query uid)])"
  using assms
  by (auto simp add: fetchBookingRequests_def services_query_table split: option.splits list.splits)

theorem practitioner_without_services_witness:
  "error (select_services example_env (owned_services_query ''u1'')) = None \<and>
   data (select_services example_env (owned_services_query ''u1'')) = Some [] \<and>
   bookingRequests (fst (fetchBookingRequests practitioner example_env (Some ''u1'') example_state)) = [] \<and>
   db_ops (snd (fetchBookingRequests practitioner example_env (Some ''u1'') example_state)) =
     [Select (owned_services_query ''u1'')] \<and>
   error (select_services failing_env (owned_services_query ''u1'')) =
     Some (PostgrestError ''timeout'') \<and>
   bookingRequests (fst (fetchBookingRequests practitioner failing_env (Some ''u1'') example_state)) = [] \<and>
   db_ops (snd (fetchBookingRequests practitioner failing_env (Some ''u1'') example_state)) =
     [Select (owned_services_query ''u1'')]"
  using practitioner_without_services [of example_env "''u1''" example_state]
    practitioner_without_services [of failing_env "''u1''" example_state]
  by (simp add: example_env_def failing_env_def)

text \<open>
  Claim C7: when the main query of a booking fetch fails, the view-model list becomes empty
  whatever it held before, the error is logged on the error channel, and the query on
  \<open>bookings\<close> is executed once (it is not tried again).
\<close>

theorem main_query_failure_clears_bookings:
  assumes "Executed (Select q) \<in> set (snd (fetchBookingRequests r e currentUserId st))"
    and "q_table q = ''bookings''"
    and "error (select_bookings e q) \<noteq> None"
  shows "fst (fetchBookingRequests r e currentUserId st) = st\<lparr>bookingRequests := []\<rparr> \<and>
         bookingRequests (fst (fetchBookingRequests r e currentUserId st)) = [] \<and>
         Console Err [LStr ''Error fetching booking requests:'', LObj]
           \<in> set (snd (fetchBookingRequests r e currentUserId st)) \<and>
         filter (on_table ''bookings'') (db_ops (snd (fetchBookingRequests r e currentUserId st))) =
           [Select q]"
proof -
  from fetch_shape [OF assms(1,2)] obtain pre where
    f: "fst (fetchBookingRequests r e currentUserId st) = fst (run_query e q st)" and
    s: "snd (fetchBookingRequests r e currentUserId st) = pre @ snd (run_query e q st)" and
    p: "filter (on_table ''bookings'') (db_ops pre) = []"
    by blast
  have "fst (fetchBookingRequests r e currentUserId st) = st\<lparr>bookingRequests := []\<rparr>"
    using f run_query_failed(1) [OF assms(3)] by simp
  moreover have "Console Err [LStr ''Error fetching booking requests:'', LObj]
           \<in> set (snd (fetchBookingRequests r e currentUserId st))"
    using s run_query_failed(2) [OF assms(3)] by simp
  moreover have "filter (on_table ''bookings'')
           (db_ops (snd (fetchBookingRequests r e currentUserId st))) = [Select q]"
    using s p assms(2) by (simp add: db_ops_append run_query_ops)
  ultimately show ?thesis by simp
qed

theorem main_query_failure_clears_bookings_witness:
  "Executed (Select (bookings_query\<lparr>q_filters := [Eq ''client_id'' ''u1'']\<rparr>))
     \<in> set (snd (fetchBookingRequests client failing_env (Some ''u1'') example_state)) \<and>
   bookingRequests example_state = [example_request, other_request] \<and>
   bookingRequests (fst (fetchBookingRequests client failing_env (Some ''u1'') example_state)) = [] \<and>
   Console Err [LStr ''Error fetching booking requests:'', LObj]
     \<in> set (snd (fetchBookingRequests client failing_env (Some ''u1'') example_state)) \<and>
   filter (on_table ''bookings'')
     (db_ops (snd (fetchBookingRequests client failing_env (Some ''u1'') example_state))) =
     [Select (bookings_query\<lparr>q_filters := [Eq ''client_id'' ''u1'']\<rparr>)]"
  using main_query_failure_clears_bookings
    [of "bookings_query\<lparr>q_filters := [Eq ''client_id'' ''u1'']\<rparr>" client failing_env
        "Some ''u1''" example_state]
  by (simp add: fetchBookingRequests_def run_query_mem bookings_query_def failing_env_def
      example_env_def example_state_def)

subsection \<open>The booking formatter\<close>

text \<open>
  Claim C5: the formatter yields one view model per raw row, in the order of the rows (the
  \<open>i\<close>-th view model is the \<open>i\<close>-th row formatted, with the row's identifier); the service
  title is \<open>Unknown Service\<close> when the nested service relation is missing, the provider
  name is \<open>Unknown Practitioner\<close> when the service relation or its nested provider relation
  is missing, and the special-request text is the empty string when the row has none.
\<close>

theorem formattedRequests_order_and_fallbacks:
  "length (formattedRequests e (Some rows)) = length rows \<and>
   map req_id (formattedRequests e (Some rows)) = map row_id rows \<and>
   (\<forall>i < length rows.
      formattedRequests e (Some rows) ! i = formatRequest e (rows ! i) \<and>
      (row_services (rows ! i) = None \<longrightarrow>
         serviceTitle (formattedRequests e (Some rows) ! i) = ''Unknown Service'') \<and>
      (Option.bind (row_services (rows ! i)) rel_users = None \<longrightarrow>
         practitionerName (formattedRequests e (Some rows) ! i) = ''Unknown Practitioner'') \<and>
      (row_special_requests (rows ! i) = None \<longrightarrow>
         special_requests (formattedRequests e (Some rows) ! i) = []))"
  by (simp add: formattedRequests_def formatRequest_def)

theorem formattedRequests_order_and_fallbacks_witness:
  "row_services example_row = None \<and>
   row_special_requests example_row = None \<and>
   Option.bind (row_services detailed_row) rel_users = None \<and>
   formattedRequests example_env (Some [example_row, detailed_row]) =
     [\<lparr>req_id = ''b1'', booking_date = ''2024-06-01'', time = ''10:00'',
       special_requests = [], status = ''pending'',
       serviceTitle = ''Unknown Service'', practitionerName = ''Unknown Practitioner''\<rparr>,
      \<lparr>req_id = ''b2'', booking_date = ''2024-06-02'', time = ''15:30'',
       special_requests = ''first visit'', status = ''pending'',
       serviceTitle = ''Massage'', practitionerName = ''Unknown Practitioner''\<rparr>]"
  using formattedRequests_order_and_fallbacks [of example_env "[example_row, detailed_row]"]
  by (simp add: formattedRequests_def formatRequest_def example_row_def detailed_row_def
      example_env_def)

subsection \<open>Updating and cancelling\<close>

text \<open>
  Claim C6: when exactly one entry \<open>x\<close> of the view-model list has the given booking
  identifier (the list is \<open>before @ x # after\<close> and no entry of \<open>before\<close> or \<open>after\<close> has
  it), a successful status update leaves the list as \<open>before @ x' # after\<close>, where \<open>x'\<close> is
  \<open>x\<close> with the new status and every other field as in \<open>x\<close>; the rest of the component
  state is unchanged.
\<close>

theorem handleRespond_patches_single_entry:
  assumes "update_booking e (set_status_op bid s) = None"
    and "bookingRequests st = before @ x # after"
    and "req_id x = bid"
    and "\<forall>y \<in> set before \<union> set after. req_id y \<noteq> bid"
  shows "fst (handleRespond e bid s st) =
           st\<lparr>bookingRequests := before @ x\<lparr>status := s\<rparr> # after\<rparr> \<and>
         bookingRequests (fst (handleRespond e bid s st)) = before @ x\<lparr>status := s\<rparr> # after \<and>
         status (x\<lparr>status := s\<rparr>) = s \<and>
         req_id (x\<lparr>status := s\<rparr>) = req_id x \<and>
         booking_date (x\<lparr>status := s\<rparr>) = booking_date x \<and>
         time (x\<lparr>status := s\<rparr>) = time x \<and>
         special_requests (x\<lparr>status := s\<rparr>) = special_requests x \<and>
         serviceTitle (x\<lparr>status := s\<rparr>) = serviceTitle x \<and>
         practitionerName (x\<lparr>status := s\<rparr>) = practitionerName x"
proof -
  have "map (\<lambda>req. if req_id req = bid then req\<lparr>status := s\<rparr> else req) before = before"
    using assms(4) by (simp add: map_idI)
  moreover have "map (\<lambda>req. if req_id req = bid then req\<lparr>status := s\<rparr> else req) after = after"
    using assms(4) by (simp add: map_idI)
  ultimately show ?thesis
    using assms(1,2,3) by (simp add: handleRespond_def patch_status_def)
qed

theorem handleRespond_patches_single_entry_witness:
  "update_booking example_env (set_status_op ''b2'' ''confirmed'') = None \<and>
   bookingRequests example_state = [example_request] @ other_request # [] \<and>
   req_id other_request = ''b2'' \<and>
   req_id example_request = ''b1'' \<and>
   bookingRequests (fst (handleRespond example_env ''b2'' ''confirmed'' example_state)) =
     [example_request,
      \<lparr>req_id = ''b2'', booking_date = ''2024-06-02'', time = ''15:30'',
       special_requests = ''first visit'', status = ''confirmed'',
       serviceTitle = ''Massage'', practitionerName = ''Alice''\<rparr>]"
  using handleRespond_patches_single_entry
    [of example_env "''b2''" "''confirmed''" example_state "[example_request]" other_request "[]"]
  by (simp add: example_env_def example_state_def example_request_def other_request_def)

text \<open>
  Claim C8: cancelling a booking is the update-status operation specialised to the status
  \<open>cancelled\<close>. For every backend answer and every state, \<open>handleCancel\<close> and
  \<open>cancel_spec\<close> end in the same state and perform the same sequence of effects, console
  output being compared by position and channel only. The one request of either is the
  update of the \<open>status\<close> column to \<open>cancelled\<close> on the row with the given \<open>id\<close>, and
  every other effect of \<open>handleCancel\<close> is console output. On success the local list is
  patched for that identifier and a message is printed on the log channel; on failure the
  state is unchanged and the request is followed by one message on the error channel.
\<close>

theorem handleCancel_is_handleRespond_cancelled:
  "outcome (handleCancel e bid st) = outcome (cancel_spec e bid st) \<and>
   db_ops (snd (handleCancel e bid st)) =
     [Update ''bookings'' [(''status'', ''cancelled'')] [Eq ''id'' bid]] \<and>
   db_ops (snd (cancel_spec e bid st)) =
     [Update ''bookings'' [(''status'', ''cancelled'')] [Eq ''id'' bid]] \<and>
   filter (\<lambda>x. \<not> is_console x) (snd (handleCancel e bid st)) =
     [Executed (Update ''bookings'' [(''status'', ''cancelled'')] [Eq ''id'' bid])] \<and>
   (update_booking e (Update ''bookings'' [(''status'', ''cancelled'')] [Eq ''id'' bid]) = None \<longrightarrow>
      handleCancel e bid st =
        (st\<lparr>bookingRequests := patch_status bid ''cancelled'' (bookingRequests st)\<rparr>,
         [Console Log [LStr ''Client cancelling booking request '', LStr bid],
          Executed (Update ''bookings'' [(''status'', ''cancelled'')] [Eq ''id'' bid]),
          Console Log [LStr ''Booking request (ID: '', LStr bid, LStr '') cancelled.'']]) \<and>
      fst (cancel_spec e bid st) =
        st\<lparr>bookingRequests := patch_status bid ''cancelled'' (bookingRequests st)\<rparr>) \<and>
   (update_booking e (Update ''bookings'' [(''status'', ''cancelled'')] [Eq ''id'' bid]) \<noteq> None \<longrightarrow>
      handleCancel e bid st =
        (st,
         [Console Log [LStr ''Client cancelling booking request '', LStr bid],
          Executed (Update ''bookings'' [(''status'', ''cancelled'')] [Eq ''id'' bid]),
          Console Err [LStr ''Error cancelling booking:'', LObj]]) \<and>
      cancel_spec e bid st =
        (st,
         [Console Log [LStr ''Provider responded to request '', LStr bid, LStr '': '',
                       LStr ''cancelled''],
          Executed (Update ''bookings'' [(''status'', ''cancelled'')] [Eq ''id'' bid]),
          Console Err [LStr ''Error updating booking status:'', LObj]]))"
  by (auto simp add: outcome_def cancel_spec_def handleCancel_def handleRespond_def
      set_status_op_def patch_status_def split: option.splits)

theorem handleCancel_is_handleRespond_cancelled_witness:
  "update_booking example_env (Update ''bookings'' [(''status'', ''cancelled'')] [Eq ''id'' ''b1'']) = None \<and>
   outcome (handleCancel example_env ''b1'' example_state) =
     outcome (cancel_spec example_env ''b1'' example_state) \<and>
   outcome (handleCancel example_env ''b1'' example_state) =
     (example_state\<lparr>bookingRequests := [example_request\<lparr>status := ''cancelled''\<rparr>, other_request]\<rparr>,
      [Console Log [],
       Executed (Update ''bookings'' [(''status'', ''cancelled'')] [Eq ''id'' ''b1'']),
       Console Log []]) \<and>
   update_booking failing_env (Update ''bookings'' [(''status'', ''cancelled'')] [Eq ''id'' ''b1'']) =
     Some (PostgrestError ''timeout'') \<and>
   outcome (handleCancel failing_env ''b1'' example_state) =
     outcome (cancel_spec failing_env ''b1'' example_state) \<and>
   handleCancel failing_env ''b1'' example_state =
     (example_state,
      [Console Log [LStr ''Client cancelling booking request '', LStr ''b1''],
       Executed (Update ''bookings'' [(''status'', ''cancelled'')] [Eq ''id'' ''b1'']),
       Console Err [LStr ''Error cancelling booking:'', LObj]])"
  using handleCancel_is_handleRespond_cancelled [of example_env "''b1''" example_state]
    handleCancel_is_handleRespond_cancelled [of failing_env "''b1''" example_state]
  by (simp add: outcome_def cancel_spec_def handleCancel_def handleRespond_def set_status_op_def
      patch_status_def example_env_def failing_env_def example_state_def example_request_def
      other_request_def)

text \<open>
  Claim C10: when no entry of the view-model list has the given booking identifier, the
  patch that a successful status update or a successful cancel applies leaves the list,
  and with it the whole component state, unchanged.
\<close>

theorem patch_without_matching_entry:
  assumes "\<forall>req \<in> set (bookingRequests st). req_id req \<noteq> bid"
  shows "patch_status bid s (bookingRequests st) = bookingRequests st \<and>
         (update_booking e (set_status_op bid s) = None \<longrightarrow>
            bookingRequests (fst (handleRespond e bid s st)) = bookingRequests st \<and>
            fst (handleRespond e bid s st) = st) \<and>
         (update_booking e (set_status_op bid ''cancelled'') = None \<longrightarrow>
            bookingRequests (fst (handleCancel e bid st)) = bookingRequests st \<and>
            fst (handleCancel e bid st) = st)"
  using assms
  by (simp add: handleRespond_def handleCancel_def patch_status_def set_status_op_def map_idI)

theorem patch_without_matching_entry_witness:
  "req_id example_request = ''b1'' \<and> req_id other_request = ''b2'' \<and>
   update_booking example_env (set_status_op ''b9'' ''confirmed'') = None \<and>
   update_booking example_env (set_status_op ''b9'' ''cancelled'') = None \<and>
   bookingRequests (fst (handleRespond example_env ''b9'' ''confirmed'' example_state)) =
     [example_request, other_request] \<and>
   bookingRequests (fst (handleCancel example_env ''b9'' example_state)) =
     [example_request, other_request]"
  using patch_without_matching_entry [of example_state "''b9''" "''confirmed''" example_env]
  by (simp add: example_env_def example_state_def example_request_def other_request_def)

end
